theory Spec2Isabelle
  imports Complex_Main "HOL-Library.AList" "HOL-Library.Word"
begin

section \<open>Python values used by the orchestration core\<close>

text \<open>
  Text is modelled as \<open>string\<close>; one \<open>char\<close> stands for one code point below 256.
  Every keyword, phrase and pattern of the program is ASCII, and no code point of that
  range lower-cases to an ASCII letter other than the ASCII capitals, so matching against
  the program's tables behaves on this alphabet as it does in Python.
  Python floats are modelled as reals: rounding is not modelled.
\<close>

datatype py_error = ZeroDivisionError | KeyError | AttributeError | TypeError | OtherError

definition py_isspace :: "char \<Rightarrow> bool" where
  \<comment> \<open>\<open>str.isspace\<close>, which is also \<open>\s\<close> of \<open>re\<close> and the separator set of \<open>str.split()\<close>\<close>
  "py_isspace c =
     (let n = (of_char c :: nat)
      in (9 \<le> n \<and> n \<le> 13) \<or> (28 \<le> n \<and> n \<le> 32) \<or> n = 133 \<or> n = 160)"

definition py_isdigit :: "char \<Rightarrow> bool" where
  \<comment> \<open>\<open>\d\<close> of \<open>re\<close>: the decimal digits\<close>
  "py_isdigit c = (let n = (of_char c :: nat) in 48 \<le> n \<and> n \<le> 57)"

definition py_isword :: "char \<Rightarrow> bool" where
  \<comment> \<open>\<open>\w\<close> of \<open>re\<close>: alphanumeric code points and the underscore\<close>
  "py_isword c =
     (let n = (of_char c :: nat)
      in (48 \<le> n \<and> n \<le> 57) \<or> (65 \<le> n \<and> n \<le> 90) \<or> n = 95 \<or> (97 \<le> n \<and> n \<le> 122)
         \<or> n = 170 \<or> n = 178 \<or> n = 179 \<or> n = 181 \<or> n = 185 \<or> n = 186
         \<or> (188 \<le> n \<and> n \<le> 190) \<or> (192 \<le> n \<and> n \<le> 214)
         \<or> (216 \<le> n \<and> n \<le> 246) \<or> (248 \<le> n \<and> n \<le> 255))"

definition lower_char :: "char \<Rightarrow> char" where
  "lower_char c =
     (let n = (of_char c :: nat)
      in if (65 \<le> n \<and> n \<le> 90) \<or> (192 \<le> n \<and> n \<le> 214) \<or> (216 \<le> n \<and> n \<le> 222)
         then char_of (n + 32) else c)"

definition py_lower :: "string \<Rightarrow> string" where
  \<comment> \<open>\<open>str.lower()\<close>\<close>
  "py_lower s = map lower_char s"

fun starts_with :: "string \<Rightarrow> string \<Rightarrow> bool" where
  "starts_with [] s = True"
| "starts_with (p # ps) [] = False"
| "starts_with (p # ps) (c # cs) = (if p = c then starts_with ps cs else False)"

fun starts_with_ignorecase :: "string \<Rightarrow> string \<Rightarrow> bool" where
  \<comment> \<open>a lower-case literal matched under \<open>re.IGNORECASE\<close>: each character of the
      text is compared in lower case\<close>
  "starts_with_ignorecase [] s = True"
| "starts_with_ignorecase (p # ps) [] = False"
| "starts_with_ignorecase (p # ps) (c # cs) =
     (if p = lower_char c then starts_with_ignorecase ps cs else False)"

fun py_in :: "string \<Rightarrow> string \<Rightarrow> bool" where
  \<comment> \<open>\<open>p in s\<close> on strings: \<open>p\<close> occurs in \<open>s\<close> as a substring\<close>
  "py_in p [] = (p = [])"
| "py_in p (c # cs) = (if starts_with p (c # cs) then True else py_in p cs)"

fun split_count :: "bool \<Rightarrow> string \<Rightarrow> nat" where
  \<comment> \<open>\<open>len(s.split())\<close>: the number of maximal runs of non-whitespace; the flag says
      that the scan is inside such a run\<close>
  "split_count inword [] = 0"
| "split_count inword (c # cs) =
     (if py_isspace c then split_count False cs
      else if inword then split_count True cs
      else Suc (split_count True cs))"

subsection \<open>The regular expressions of the compliance checks\<close>

text \<open>
  The patterns of \<open>_run_compliance_checks\<close> are sequences of literals and of the
  repetitions \<open>\s+\<close>, \<open>\w+\<close> and \<open>\d+\<close>. \<open>re.search\<close> is only asked whether a match
  exists, so the matcher tries every length of a repetition.
\<close>

datatype char_class = Space | Word | Digit

fun in_class :: "char_class \<Rightarrow> char \<Rightarrow> bool" where
  "in_class Space c = py_isspace c"
| "in_class Word c = py_isword c"
| "in_class Digit c = py_isdigit c"

datatype re_item = Lit string | Plus char_class

fun match_here :: "re_item list \<Rightarrow> string \<Rightarrow> bool" where
  "match_here [] s = True"
| "match_here (Lit l # ts) s =
     (if starts_with l s then match_here ts (drop (length l) s) else False)"
| "match_here (Plus k # ts) [] = False"
| "match_here (Plus k # ts) (c # cs) =
     (if in_class k c
      then (if match_here (Plus k # ts) cs then True else match_here ts cs)
      else False)"

fun re_search :: "re_item list \<Rightarrow> string \<Rightarrow> bool" where
  "re_search ts [] = match_here ts []"
| "re_search ts (c # cs) = (if match_here ts (c # cs) then True else re_search ts cs)"

text \<open>
  \<open>re.sub(p, r, s, flags=re.IGNORECASE)\<close> for a literal, non-empty, lower-case pattern
  \<open>p\<close> and a replacement without escapes: scanning from the left, every match is
  replaced and the scan resumes behind it. (Every pattern \<open>_sanitize_response\<close> passes
  is such a literal.)
\<close>

function re_sub_ignorecase :: "string \<Rightarrow> string \<Rightarrow> string \<Rightarrow> string" where
  "re_sub_ignorecase p r [] = []"
| "re_sub_ignorecase p r (c # cs) =
     (if p \<noteq> [] \<and> starts_with_ignorecase p (c # cs)
      then r @ re_sub_ignorecase p r (drop (length p) (c # cs))
      else c # re_sub_ignorecase p r cs)"
  by pat_completeness auto
termination
  by (relation "measure (\<lambda>(p, r, s). length s)") auto

section \<open>Compliance agent (src/agents/compliance.py)\<close>

definition disclaimers_table :: "(string \<times> string) list" where
  "disclaimers_table =
    [(''general'', ''This information is for educational purposes only and should not be considered as investment advice.''),
     (''portfolio'', ''Portfolio analysis is for educational purposes only. Past performance does not guarantee future results.''),
     (''market'', ''Market data and analysis are for informational purposes only and should not be considered as investment advice.''),
     (''trading'', ''Trading involves risk and may not be suitable for all investors. Please consult with a financial advisor.'')]"

definition prohibited_content :: "string list" where
  "prohibited_content =
    [''guaranteed returns'', ''risk-free'', ''sure thing'', ''can't lose'',
     ''guaranteed profit'', ''guaranteed income'', ''no risk'', ''safe bet'']"

definition risk_warnings_base :: "string list" where
  "risk_warnings_base =
    [''Investing involves risk, including the potential loss of principal.'',
     ''Past performance does not guarantee future results.'',
     ''Diversification does not ensure a profit or protect against loss.'',
     ''Consider your investment objectives and risk tolerance before investing.'']"

record checks =
  approved :: bool
  flags :: "string list"
  issues :: "string list"

definition advice_indicators :: "string list" where
  "advice_indicators =
    [''you should'', ''you must'', ''you need to'', ''i recommend you'',
     ''you ought to'', ''you would be wise to'', ''you would benefit from'']"

definition recommendation_patterns :: "re_item list list" where
  "recommendation_patterns =
    [[Lit ''buy'', Plus Space, Plus Word],
     [Lit ''sell'', Plus Space, Plus Word],
     [Lit ''invest'', Plus Space, Lit ''in'', Plus Space, Plus Word],
     [Lit ''purchase'', Plus Space, Plus Word],
     [Lit ''avoid'', Plus Space, Plus Word]]"

definition return_promises :: "re_item list list" where
  "return_promises =
    [[Lit ''guaranteed'', Plus Space, Plus Digit, Lit ''%''],
     [Lit ''promise'', Plus Space, Plus Digit, Lit ''%''],
     [Lit ''ensure'', Plus Space, Plus Digit, Lit ''%''],
     [Lit ''guarantee'', Plus Space, Plus Digit, Lit ''%''],
     [Lit ''promised'', Plus Space, Plus Digit, Lit ''%'']]"

definition time_sensitive :: "string list" where
  "time_sensitive =
    [''today only'', ''limited time'', ''act now'', ''immediate action'',
     ''urgent'', ''time-sensitive'', ''expires soon'']"

definition add_flag :: "string \<Rightarrow> string \<Rightarrow> checks \<Rightarrow> checks" where
  "add_flag f i ch = ch\<lparr>flags := flags ch @ [f], issues := issues ch @ [i]\<rparr>"

definition check_prohibited :: "string \<Rightarrow> string \<Rightarrow> checks \<Rightarrow> checks" where
  "check_prohibited response_lower prohibited ch =
     (if py_in prohibited response_lower
      then add_flag ''prohibited_content''
             (''Contains prohibited phrase: '' @ [CHR 0x27] @ prohibited @ [CHR 0x27])
             (ch\<lparr>approved := False\<rparr>)
      else ch)"

definition check_advice :: "string \<Rightarrow> string \<Rightarrow> checks \<Rightarrow> checks" where
  "check_advice response_lower indicator ch =
     (if py_in indicator response_lower
      then add_flag ''personalized_advice'' ''Contains personalized investment advice'' ch
      else ch)"

definition check_recommendation :: "string \<Rightarrow> re_item list \<Rightarrow> checks \<Rightarrow> checks" where
  "check_recommendation response_lower pattern ch =
     (if re_search pattern response_lower
      then add_flag ''investment_recommendation''
             ''Contains specific investment recommendations'' ch
      else ch)"

definition check_return_promise :: "string \<Rightarrow> re_item list \<Rightarrow> checks \<Rightarrow> checks" where
  "check_return_promise response_lower pattern ch =
     (if re_search pattern response_lower
      then add_flag ''return_promise'' ''Contains promises of specific returns''
             (ch\<lparr>approved := False\<rparr>)
      else ch)"

definition check_time_sensitive :: "string \<Rightarrow> string \<Rightarrow> checks \<Rightarrow> checks" where
  "check_time_sensitive response_lower phrase ch =
     (if py_in phrase response_lower
      then add_flag ''time_sensitive'' ''Contains time-sensitive language'' ch
      else ch)"

definition run_compliance_checks :: "string \<Rightarrow> string \<Rightarrow> checks" where
  \<comment> \<open>the five \<open>for\<close> loops of \<open>_run_compliance_checks\<close>, in the source's order;
      \<open>agent_type\<close> is not read\<close>
  "run_compliance_checks response agent_type =
     (let response_lower = py_lower response;
          c0 = \<lparr>approved = True, flags = [], issues = []\<rparr>;
          c1 = fold (check_prohibited response_lower) prohibited_content c0;
          c2 = fold (check_advice response_lower) advice_indicators c1;
          c3 = fold (check_recommendation response_lower) recommendation_patterns c2;
          c4 = fold (check_return_promise response_lower) return_promises c3
      in fold (check_time_sensitive response_lower) time_sensitive c4)"

definition removal_marker :: string where
  "removal_marker = ''[content removed for compliance]''"

definition advice_replacements :: "(string \<times> string) list" where
  "advice_replacements =
    [(''you should'', ''one might consider''),
     (''you must'', ''it's important to understand that''),
     (''you need to'', ''it's worth noting that''),
     (''i recommend you'', ''research suggests that''),
     (''you ought to'', ''it may be beneficial to''),
     (''you would be wise to'', ''it's worth considering that''),
     (''you would benefit from'', ''one might benefit from'')]"

definition remove_prohibited :: "string \<Rightarrow> string" where
  \<comment> \<open>the first loop of \<open>_sanitize_response\<close>\<close>
  "remove_prohibited response =
     fold (\<lambda>prohibited sanitized. re_sub_ignorecase prohibited removal_marker sanitized)
       prohibited_content response"

definition sanitize_response :: "string \<Rightarrow> checks \<Rightarrow> string" where
  \<comment> \<open>\<open>compliance_checks\<close> is a parameter of \<open>_sanitize_response\<close> that it never reads\<close>
  "sanitize_response response compliance_checks =
     fold (\<lambda>(old, new) sanitized. re_sub_ignorecase old new sanitized)
       advice_replacements (remove_prohibited response)"

definition generate_disclaimers :: "string \<Rightarrow> checks \<Rightarrow> string list" where
  "generate_disclaimers agent_type compliance_checks =
     (let d0 = [the (map_of disclaimers_table ''general'')];
          d1 = (case map_of disclaimers_table agent_type of
                  Some d \<Rightarrow> d0 @ [d] | None \<Rightarrow> d0);
          d2 = (if ''personalized_advice'' \<in> set (flags compliance_checks)
                then d1 @ [''This response is for educational purposes only and should not be considered as personalized investment advice.'']
                else d1);
          d3 = (if ''investment_recommendation'' \<in> set (flags compliance_checks)
                then d2 @ [''Any investment examples are for educational purposes only and should not be considered as recommendations.'']
                else d2)
      in if ''return_promise'' \<in> set (flags compliance_checks)
         then d3 @ [''No investment can guarantee returns. All investments carry risk.'']
         else d3)"

definition get_risk_warnings :: "string \<Rightarrow> string list" where
  "get_risk_warnings agent_type =
     (if agent_type = ''portfolio''
      then risk_warnings_base @ [''Portfolio analysis is based on historical data and may not reflect future performance.'']
      else if agent_type = ''market''
      then risk_warnings_base @ [''Market data is subject to change and may not be current at the time of your decision.'']
      else if agent_type = ''trading''
      then risk_warnings_base @ [''Trading involves substantial risk and may not be suitable for all investors.'']
      else risk_warnings_base)"

text \<open>
  Values a caller can put into a dictionary (\<open>Dict[str, Any]\<close>), and the dictionary
  \<open>compliance_metadata\<close> that \<open>validate_agent_response\<close> builds.
\<close>

datatype pyval =
    PyNone
  | PyBool bool
  | PyNum real
  | PyStr string
  | PyList "pyval list"
  | PyDict "(string \<times> pyval) list"

datatype cval = CStrs "string list" | CStr string | CBool bool

type_synonym compliance_dict = "(string \<times> cval) list"

datatype rval = Val pyval | Meta compliance_dict

definition compliance_metadata :: "string \<Rightarrow> checks \<Rightarrow> string list \<Rightarrow> compliance_dict" where
  "compliance_metadata agent_type compliance_checks disclaimers =
     [(''disclaimers'', CStrs disclaimers),
      (''risk_warnings'', CStrs (get_risk_warnings agent_type)),
      (''compliance_flags'', CStrs (flags compliance_checks)),
      (''approved'', CBool (approved compliance_checks)),
      (''jurisdiction'', CStr ''US''),
      (''last_updated'', CStr ''2024-01-01'')]"

definition dict_set :: "'k \<Rightarrow> 'v \<Rightarrow> ('k \<times> 'v) list \<Rightarrow> ('k \<times> 'v) list" where
  \<comment> \<open>\<open>d[k] = v\<close> on a dictionary kept in insertion order\<close>
  "dict_set k v d = AList.update k v d"

definition dict_get :: "('k \<times> 'v) list \<Rightarrow> 'k \<Rightarrow> 'v \<Rightarrow> 'v" where
  \<comment> \<open>\<open>d.get(k, default)\<close>\<close>
  "dict_get d k dflt = (case map_of d k of None \<Rightarrow> dflt | Some v \<Rightarrow> v)"

definition validate_agent_response ::
  "(string \<times> pyval) list \<Rightarrow> string \<Rightarrow> py_error + (string \<times> rval) list" where
  \<comment> \<open>\<open>response_text.lower()\<close> raises AttributeError when the stored value is not a
      \<open>str\<close>; the result is the dictionary passed in, with three entries written\<close>
  "validate_agent_response agent_response agent_type =
     (case dict_get agent_response ''response'' (PyStr []) of
        PyStr response_text \<Rightarrow>
          (let compliance_checks = run_compliance_checks response_text agent_type;
               disclaimers = generate_disclaimers agent_type compliance_checks;
               sanitized_response = sanitize_response response_text compliance_checks;
               metadata = compliance_metadata agent_type compliance_checks disclaimers
           in Inr (dict_set ''approved'' (Val (PyBool (approved compliance_checks)))
                  (dict_set ''compliance'' (Meta metadata)
                  (dict_set ''response'' (Val (PyStr sanitized_response))
                     (map (\<lambda>(k, v). (k, Val v)) agent_response)))))
      | _ \<Rightarrow> Inl AttributeError)"

section \<open>Orchestrator agent (src/agents/orchestrator.py)\<close>

datatype agent_type = TUTOR | PORTFOLIO | MARKET | COMPLIANCE | ONBOARDING

fun agent_value :: "agent_type \<Rightarrow> string" where
  "agent_value TUTOR = ''tutor''"
| "agent_value PORTFOLIO = ''portfolio''"
| "agent_value MARKET = ''market''"
| "agent_value COMPLIANCE = ''compliance''"
| "agent_value ONBOARDING = ''onboarding''"

record agent_state =
  user_id :: string
  query :: string
  context' :: pyval
  retrieval :: pyval
  market :: pyval
  analysis :: "(string \<times> pyval) list"
  compliance :: compliance_dict
  messages :: "pyval list"
  current_agent :: "agent_type option"
  intent :: "string option"
  confidence :: real

definition intent_keywords :: "(agent_type \<times> string list) list" where
  \<comment> \<open>the dictionary of \<open>OrchestratorAgent.__init__\<close>, in insertion order\<close>
  "intent_keywords =
    [(TUTOR,
      [''explain'', ''what is'', ''how does'', ''learn'', ''teach'', ''concept'',
       ''definition'', ''meaning'', ''tutorial'', ''guide'', ''help me understand'']),
     (PORTFOLIO,
      [''portfolio'', ''analyze'', ''holdings'', ''performance'', ''allocation'',
       ''rebalance'', ''risk'', ''diversification'', ''sharpe'', ''volatility'',
       ''drawdown'', ''returns'', ''metrics'']),
     (MARKET,
      [''market'', ''price'', ''quote'', ''news'', ''update'', ''trend'', ''forecast'',
       ''analysis'', ''sector'', ''index'', ''stocks'', ''trading'', ''volatility'']),
     (ONBOARDING,
      [''start'', ''begin'', ''new'', ''setup'', ''profile'', ''goals'', ''risk'',
       ''preferences'', ''onboarding'', ''introduction''])]"

definition keyword_score :: "string \<Rightarrow> string list \<Rightarrow> nat" where
  \<comment> \<open>\<open>sum(1 for keyword in keywords if keyword in query_lower)\<close>\<close>
  "keyword_score query_lower keywords = length (filter (\<lambda>keyword. py_in keyword query_lower) keywords)"

definition scores_of :: "string \<Rightarrow> (agent_type \<times> nat) list" where
  "scores_of query_lower = map (\<lambda>(a, keywords). (a, keyword_score query_lower keywords)) intent_keywords"

fun max_by_score :: "(agent_type \<times> nat) \<Rightarrow> (agent_type \<times> nat) list \<Rightarrow> agent_type \<times> nat" where
  \<comment> \<open>\<open>max(scores, key=scores.get)\<close>: the first key of the highest score\<close>
  "max_by_score best [] = best"
| "max_by_score best (x # xs) = max_by_score (if snd best < snd x then x else best) xs"

definition route_query :: "agent_state \<Rightarrow> py_error + (agent_type \<times> agent_state)" where
  \<comment> \<open>returns the agent and the state as the method leaves it; the division is Python's
      \<open>/\<close>, which raises on a zero divisor\<close>
  "route_query state =
     (let query_lower = py_lower (query state) in
      case scores_of query_lower of
        x # xs \<Rightarrow>
          (let (best_agent, best_score) = max_by_score x xs;
               words = split_count False query_lower
           in if words = 0 then Inl ZeroDivisionError
              else Inr (best_agent,
                        state\<lparr>confidence := real best_score / real words,
                              current_agent := Some best_agent,
                              intent := Some (agent_value best_agent)\<rparr>))
      | [] \<Rightarrow>
          Inr (TUTOR, state\<lparr>current_agent := Some TUTOR, confidence := 0.5,
                             intent := Some ''general''\<rparr>))"

section \<open>Workflow (src/graph/workflow.py)\<close>

text \<open>
  \<open>FinnieState\<close> is a \<open>TypedDict\<close>; \<open>process_query\<close> creates it with all fourteen
  keys, so the guards \<open>"analysis" not in state\<close> of the nodes never fire and a record
  stands for it. The \<open>process\<close> methods of the three agents are parameters of the
  model: they return a dictionary or raise (the tutor draws its wording at random, the
  others read services), and they do not write to the state they are given.
\<close>

record finnie_state =
  f_user_id :: string
  f_query :: string
  f_context :: pyval
  f_retrieval :: pyval
  f_market :: pyval
  f_analysis :: "(string \<times> pyval) list"
  f_compliance :: compliance_dict
  f_messages :: "pyval list"
  f_current_agent :: "string option"
  f_intent :: "string option"
  f_confidence :: real
  f_response :: pyval
  f_sources :: pyval
  f_approved :: bool

record agents =
  tutor_process :: "agent_state \<Rightarrow> py_error + (string \<times> pyval) list"
  portfolio_process :: "agent_state \<Rightarrow> py_error + (string \<times> pyval) list"
  market_process :: "agent_state \<Rightarrow> py_error + (string \<times> pyval) list"

definition to_agent_state :: "finnie_state \<Rightarrow> agent_state" where
  \<comment> \<open>the \<open>AgentState(...)\<close> constructor calls of the nodes; the last three fields take
      the defaults of the dataclass\<close>
  "to_agent_state state =
     \<lparr>user_id = f_user_id state, query = f_query state, context' = f_context state,
      retrieval = f_retrieval state, market = f_market state, analysis = f_analysis state,
      compliance = f_compliance state, messages = f_messages state,
      current_agent = None, intent = None, confidence = 0\<rparr>"

definition router_node :: "finnie_state \<Rightarrow> finnie_state" where
  "router_node state =
     (case route_query (to_agent_state state) of
        Inr (agent_type, agent_state) \<Rightarrow>
          state\<lparr>f_current_agent := Some (agent_value agent_type),
                f_intent := intent agent_state,
                f_confidence := confidence agent_state\<rparr>
      | Inl e \<Rightarrow>
          state\<lparr>f_current_agent := Some ''tutor'', f_intent := Some ''general'',
                f_confidence := 0\<rparr>)"

definition route_to_agent :: "finnie_state \<Rightarrow> string option" where
  \<comment> \<open>\<open>state.get("current_agent", "tutor")\<close>: the key is always present, so the default
      is never taken; \<open>None\<close> is Python's \<open>None\<close>\<close>
  "route_to_agent state = f_current_agent state"

definition set_analysis :: "string \<Rightarrow> pyval \<Rightarrow> finnie_state \<Rightarrow> finnie_state" where
  \<comment> \<open>\<open>state["analysis"][k] = v\<close>\<close>
  "set_analysis k v state = state\<lparr>f_analysis := dict_set k v (f_analysis state)\<rparr>"

text \<open>
  A responder node is given the log of the agents called so far and returns it extended:
  the log is the side channel that counts which processing bodies ran.
\<close>

definition tutor_node :: "agents \<Rightarrow> string list \<times> finnie_state \<Rightarrow> string list \<times> finnie_state" where
  "tutor_node A = (\<lambda>(log, state).
     if f_current_agent state \<noteq> Some ''tutor'' then (log, state)
     else (log @ [''tutor''],
       (case tutor_process A (to_agent_state state) of
          Inr result \<Rightarrow>
            (case map_of result ''response'' of
               Some r \<Rightarrow>
                 set_analysis ''concepts_covered'' (dict_get result ''concepts_covered'' (PyList []))
                   (set_analysis ''follow_up_questions'' (dict_get result ''follow_up_questions'' (PyList []))
                     ((set_analysis ''response'' r state)
                        \<lparr>f_sources := dict_get result ''sources'' (PyList [])\<rparr>))
             | None \<Rightarrow>
                 (set_analysis ''response'' (PyStr ''I'm sorry, I encountered an error processing your educational request. Please try again.'') state)
                   \<lparr>f_sources := PyList []\<rparr>)
        | Inl e \<Rightarrow>
            (set_analysis ''response'' (PyStr ''I'm sorry, I encountered an error processing your educational request. Please try again.'') state)
              \<lparr>f_sources := PyList []\<rparr>)))"

definition portfolio_node :: "agents \<Rightarrow> string list \<times> finnie_state \<Rightarrow> string list \<times> finnie_state" where
  "portfolio_node A = (\<lambda>(log, state).
     if f_current_agent state \<noteq> Some ''portfolio'' then (log, state)
     else (log @ [''portfolio''],
       (case portfolio_process A (to_agent_state state) of
          Inr result \<Rightarrow>
            (case map_of result ''response'' of
               Some r \<Rightarrow>
                 set_analysis ''metrics'' (dict_get result ''metrics'' (PyDict []))
                   (set_analysis ''recommendations'' (dict_get result ''recommendations'' (PyList []))
                     ((set_analysis ''response'' r state)
                        \<lparr>f_sources := dict_get result ''sources'' (PyList [])\<rparr>))
             | None \<Rightarrow>
                 (set_analysis ''response'' (PyStr ''I'm sorry, I encountered an error analyzing your portfolio. Please try again.'') state)
                   \<lparr>f_sources := PyList []\<rparr>)
        | Inl e \<Rightarrow>
            (set_analysis ''response'' (PyStr ''I'm sorry, I encountered an error analyzing your portfolio. Please try again.'') state)
              \<lparr>f_sources := PyList []\<rparr>)))"

definition market_node :: "agents \<Rightarrow> string list \<times> finnie_state \<Rightarrow> string list \<times> finnie_state" where
  "market_node A = (\<lambda>(log, state).
     if f_current_agent state \<noteq> Some ''market'' then (log, state)
     else (log @ [''market''],
       (case market_process A (to_agent_state state) of
          Inr result \<Rightarrow>
            (case map_of result ''response'' of
               Some r \<Rightarrow>
                 set_analysis ''news'' (dict_get result ''news'' (PyList []))
                   (((set_analysis ''response'' r state)
                       \<lparr>f_sources := dict_get result ''sources'' (PyList [])\<rparr>)
                       \<lparr>f_market := dict_get result ''market_data'' (PyDict [])\<rparr>)
             | None \<Rightarrow>
                 (set_analysis ''response'' (PyStr ''I'm sorry, I encountered an error retrieving market data. Please try again.'') state)
                   \<lparr>f_sources := PyList []\<rparr>)
        | Inl e \<Rightarrow>
            (set_analysis ''response'' (PyStr ''I'm sorry, I encountered an error retrieving market data. Please try again.'') state)
              \<lparr>f_sources := PyList []\<rparr>)))"

definition compliance_failed :: "finnie_state \<Rightarrow> finnie_state" where
  \<comment> \<open>the \<open>except\<close> branch of \<open>_compliance_node\<close>\<close>
  "compliance_failed state =
     state\<lparr>f_approved := False,
           f_compliance :=
             [(''disclaimers'', CStrs [''This response has not been compliance reviewed.'']),
              (''risk_warnings'', CStrs [''Please consult with a financial advisor before making investment decisions.''])]\<rparr>"

definition compliance_node :: "finnie_state \<Rightarrow> finnie_state" where
  "compliance_node state =
     (let response = dict_get (f_analysis state) ''response'' (PyStr []);
          agent_type = (case f_current_agent state of
                          None \<Rightarrow> ''general'' | Some a \<Rightarrow> if a = [] then ''general'' else a)
      in case validate_agent_response [(''response'', response)] agent_type of
           Inl e \<Rightarrow> compliance_failed state
         | Inr compliance_result \<Rightarrow>
             (case (map_of compliance_result ''compliance'',
                    map_of compliance_result ''response'',
                    map_of compliance_result ''approved'') of
                (Some (Meta m), Some (Val r), Some (Val (PyBool b))) \<Rightarrow>
                  (set_analysis ''response'' r (state\<lparr>f_compliance := m\<rparr>))\<lparr>f_approved := b\<rparr>
              | _ \<Rightarrow> compliance_failed state))"

definition newline :: string where
  "newline = [CHR 0x0A]"

definition bullet :: string where
  \<comment> \<open>U+2022 lies outside the alphabet of the model and is written as its three UTF-8
      bytes; nothing modelled here scans the formatted text\<close>
  "bullet = [CHR 0xE2, CHR 0x80, CHR 0xA2]"

definition py_iadd_str :: "pyval \<Rightarrow> string \<Rightarrow> py_error + pyval" where
  \<comment> \<open>\<open>response += text\<close>: concatenation on a \<open>str\<close>; a list is extended by the
      characters; every other value raises TypeError\<close>
  "py_iadd_str v text =
     (case v of
        PyStr s \<Rightarrow> Inr (PyStr (s @ text))
      | PyList xs \<Rightarrow> Inr (PyList (xs @ map (\<lambda>c. PyStr [c]) text))
      | _ \<Rightarrow> Inl TypeError)"

fun cval_truthy :: "cval option \<Rightarrow> bool" where
  \<comment> \<open>truth value of \<open>compliance.get(k)\<close>\<close>
  "cval_truthy None = False"
| "cval_truthy (Some (CStrs xs)) = (xs \<noteq> [])"
| "cval_truthy (Some (CStr s)) = (s \<noteq> [])"
| "cval_truthy (Some (CBool b)) = b"

fun cval_items :: "cval option \<Rightarrow> py_error + string list" where
  \<comment> \<open>the items of \<open>for x in compliance[k]\<close>\<close>
  "cval_items None = Inl KeyError"
| "cval_items (Some (CStrs xs)) = Inr xs"
| "cval_items (Some (CStr s)) = Inr (map (\<lambda>c. [c]) s)"
| "cval_items (Some (CBool b)) = Inl TypeError"

fun append_lines :: "string list \<Rightarrow> pyval \<Rightarrow> py_error + pyval" where
  \<comment> \<open>\<open>for x in items: response += f"\<bullet> {x}\n"\<close>\<close>
  "append_lines [] response = Inr response"
| "append_lines (x # xs) response =
     (case py_iadd_str response (bullet @ '' '' @ x @ newline) of
        Inl e \<Rightarrow> Inl e
      | Inr response' \<Rightarrow> append_lines xs response')"

definition append_section ::
  "compliance_dict \<Rightarrow> string \<Rightarrow> string list \<Rightarrow> pyval \<Rightarrow> py_error + pyval" where
  \<comment> \<open>one \<open>if compliance.get(k):\<close> block of \<open>_responder_node\<close>\<close>
  "append_section compliance' k headers response =
     (if cval_truthy (map_of compliance' k)
      then (case fold (\<lambda>h r. case r of Inl e \<Rightarrow> Inl e | Inr v \<Rightarrow> py_iadd_str v h)
                   headers (Inr response) of
              Inl e \<Rightarrow> Inl e
            | Inr response' \<Rightarrow>
                (case cval_items (map_of compliance' k) of
                   Inl e \<Rightarrow> Inl e
                 | Inr items \<Rightarrow> append_lines items response'))
      else Inr response)"

definition responder_node :: "finnie_state \<Rightarrow> finnie_state" where
  "responder_node state =
     (let response = dict_get (f_analysis state) ''response'' (PyStr []);
          compliance' = f_compliance state
      in case append_section compliance' ''disclaimers''
                [newline @ newline @ ''---'' @ newline, ''**Important Disclaimers:**'' @ newline]
                response of
           Inl e \<Rightarrow> state\<lparr>f_response := PyStr ''I'm sorry, I encountered an error formatting the response. Please try again.''\<rparr>
         | Inr response1 \<Rightarrow>
             (case append_section compliance' ''risk_warnings''
                     [newline @ ''**Risk Warnings:**'' @ newline] response1 of
                Inl e \<Rightarrow> state\<lparr>f_response := PyStr ''I'm sorry, I encountered an error formatting the response. Please try again.''\<rparr>
              | Inr response2 \<Rightarrow> state\<lparr>f_response := response2\<rparr>))"

text \<open>
  The compiled graph: \<open>router\<close>, then the node that the conditional edge's table gives
  for the value of \<open>_route_to_agent\<close>, then \<open>compliance\<close>, then \<open>responder\<close>. The
  table has three entries; for any other value the lookup in the graph library raises
  KeyError and no further node runs. The result pairs the log of agent calls with the
  outcome of \<open>graph.invoke\<close>.
\<close>

definition conditional_edges ::
  "(string \<times> (agents \<Rightarrow> string list \<times> finnie_state \<Rightarrow> string list \<times> finnie_state)) list" where
  "conditional_edges =
     [(''tutor'', tutor_node), (''portfolio'', portfolio_node), (''market'', market_node)]"

definition graph_invoke :: "agents \<Rightarrow> finnie_state \<Rightarrow> string list \<times> (py_error + finnie_state)" where
  "graph_invoke A initial_state =
     (let s1 = router_node initial_state in
      case route_to_agent s1 of
        None \<Rightarrow> ([], Inl KeyError)
      | Some k \<Rightarrow>
          (case map_of conditional_edges k of
             None \<Rightarrow> ([], Inl KeyError)
           | Some node \<Rightarrow>
               (let (log, s2) = node A ([], s1)
                in (log, Inr (responder_node (compliance_node s2))))))"

fun py_truthy :: "pyval \<Rightarrow> bool" where
  "py_truthy PyNone = False"
| "py_truthy (PyBool b) = b"
| "py_truthy (PyNum x) = (x \<noteq> 0)"
| "py_truthy (PyStr s) = (s \<noteq> [])"
| "py_truthy (PyList xs) = (xs \<noteq> [])"
| "py_truthy (PyDict d) = (d \<noteq> [])"

definition initial_state :: "string \<Rightarrow> string \<Rightarrow> pyval \<Rightarrow> finnie_state" where
  "initial_state user_id' query' ctx =
     \<lparr>f_user_id = user_id', f_query = query',
      f_context = (if py_truthy ctx then ctx else PyDict []),
      f_retrieval = PyDict [], f_market = PyDict [], f_analysis = [], f_compliance = [],
      f_messages = [], f_current_agent = None, f_intent = None, f_confidence = 0,
      f_response = PyStr [], f_sources = PyList [], f_approved = False\<rparr>"

definition py_opt_str :: "string option \<Rightarrow> pyval" where
  "py_opt_str x = (case x of None \<Rightarrow> PyNone | Some s \<Rightarrow> PyStr s)"

definition error_payload :: "(string \<times> rval) list" where
  \<comment> \<open>the dictionary returned by the \<open>except\<close> branch of \<open>process_query\<close>\<close>
  "error_payload =
     [(''response'', Val (PyStr ''I'm sorry, I encountered an error processing your request. Please try again.'')),
      (''sources'', Val (PyList [])),
      (''agent'', Val (PyStr ''error'')),
      (''intent'', Val (PyStr ''error'')),
      (''confidence'', Val (PyNum 0)),
      (''approved'', Val (PyBool False)),
      (''compliance'', Meta []),
      (''analysis'', Val (PyDict []))]"

definition result_payload :: "finnie_state \<Rightarrow> (string \<times> rval) list" where
  "result_payload result =
     [(''response'', Val (f_response result)),
      (''sources'', Val (f_sources result)),
      (''agent'', Val (py_opt_str (f_current_agent result))),
      (''intent'', Val (py_opt_str (f_intent result))),
      (''confidence'', Val (PyNum (f_confidence result))),
      (''approved'', Val (PyBool (f_approved result))),
      (''compliance'', Meta (f_compliance result)),
      (''analysis'', Val (PyDict (f_analysis result)))]"

definition process_query ::
  "agents \<Rightarrow> string \<Rightarrow> string \<Rightarrow> pyval \<Rightarrow> py_error + (string \<times> rval) list" where
  \<comment> \<open>\<open>FinnieWorkflow.process_query\<close>: \<open>Inl\<close> would be an exception that reaches the
      caller\<close>
  "process_query A user_id' query' ctx =
     (case snd (graph_invoke A (initial_state user_id' query' ctx)) of
        Inr result \<Rightarrow> Inr (result_payload result)
      | Inl e \<Rightarrow> Inr error_payload)"

section \<open>Portfolio metrics (src/agents/portfolio.py, src/tools/portfolio_metrics.py)\<close>

text \<open>
  A numeric entry of a holding is a Python int within the range of int64 or a float. A
  float64 value is a real number, an infinity or NaN; the sign of a zero is not kept.
  A column of the data frame is an int64 array when all its entries are ints, and a
  float64 array otherwise. Arithmetic on int64 arrays wraps around, as numpy's does.
  An exact result is turned into a float64 by the rounding of the machine, and the
  library chooses the order in which it adds up a float array; both are parameters
  (\<open>round64\<close>, \<open>float_sum\<close>), next to the seeded random series and \<open>np.percentile\<close>.
\<close>

datatype fnum = Fin real | PInf | NInf | NaN

datatype num = IntV "64 word" | FloatV fnum

record holding =
  symbol :: string
  quantity :: num
  cost_basis :: num
  market_value :: "num option"

record numpy =
  normal_seed42 :: "nat \<Rightarrow> real list"
  percentile :: "real list \<Rightarrow> real \<Rightarrow> real"
  round64 :: "real \<Rightarrow> fnum"
  float_sum :: "fnum list \<Rightarrow> fnum"

fun fsgn :: "fnum \<Rightarrow> int" where
  "fsgn (Fin x) = (if 0 < x then 1 else if x < 0 then - 1 else 0)"
| "fsgn PInf = 1"
| "fsgn NInf = - 1"
| "fsgn NaN = 0"

fun fmul :: "numpy \<Rightarrow> fnum \<Rightarrow> fnum \<Rightarrow> fnum" where
  \<comment> \<open>float64 multiplication: an infinity times zero is NaN\<close>
  "fmul np NaN b = NaN"
| "fmul np a NaN = NaN"
| "fmul np (Fin x) (Fin y) = round64 np (x * y)"
| "fmul np a b =
     (if fsgn a * fsgn b = 0 then NaN else if 0 < fsgn a * fsgn b then PInf else NInf)"

fun fdiv :: "numpy \<Rightarrow> fnum \<Rightarrow> fnum \<Rightarrow> fnum" where
  \<comment> \<open>float64 division as numpy does it: a division by zero gives an infinity, or NaN
      for \<open>0 / 0\<close>; no exception\<close>
  "fdiv np NaN b = NaN"
| "fdiv np a NaN = NaN"
| "fdiv np (Fin x) (Fin y) =
     (if y = 0 then (if 0 < x then PInf else if x < 0 then NInf else NaN)
      else round64 np (x / y))"
| "fdiv np (Fin x) b = Fin 0"
| "fdiv np a (Fin y) = (if 0 \<le> y then a else (if a = PInf then NInf else PInf))"
| "fdiv np a b = NaN"

definition to_float :: "numpy \<Rightarrow> num \<Rightarrow> fnum" where
  \<comment> \<open>the conversion of an entry to float64\<close>
  "to_float np v = (case v of IntV i \<Rightarrow> round64 np (real_of_int (sint i)) | FloatV f \<Rightarrow> f)"

datatype series = IntS "64 word list" | FloatS "fnum list"

fun ints_of :: "num list \<Rightarrow> 64 word list option" where
  "ints_of [] = Some []"
| "ints_of (IntV i # xs) = map_option ((#) i) (ints_of xs)"
| "ints_of (FloatV f # xs) = None"

definition column :: "numpy \<Rightarrow> num list \<Rightarrow> series" where
  \<comment> \<open>a column of \<open>pd.DataFrame(holdings)\<close>\<close>
  "column np xs =
     (case ints_of xs of Some is \<Rightarrow> IntS is | None \<Rightarrow> FloatS (map (to_float np) xs))"

fun floats :: "numpy \<Rightarrow> series \<Rightarrow> fnum list" where
  "floats np (IntS is) = map (\<lambda>i. round64 np (real_of_int (sint i))) is"
| "floats np (FloatS fs) = fs"

fun series_mul :: "numpy \<Rightarrow> series \<Rightarrow> series \<Rightarrow> series" where
  \<comment> \<open>\<open>a * b\<close> on two columns\<close>
  "series_mul np (IntS xs) (IntS ys) = IntS (map2 (*) xs ys)"
| "series_mul np a b = FloatS (map2 (fmul np) (floats np a) (floats np b))"

definition nansum :: "numpy \<Rightarrow> fnum list \<Rightarrow> fnum" where
  \<comment> \<open>\<open>Series.sum()\<close> of a float column: NaN counts as 0, the sum of nothing is 0\<close>
  "nansum np fs =
     (case filter (\<lambda>x. x \<noteq> NaN) fs of
        [] \<Rightarrow> Fin 0
      | [x] \<Rightarrow> x
      | _ \<Rightarrow> float_sum np (map (\<lambda>x. if x = NaN then Fin 0 else x) fs))"

fun series_sum :: "numpy \<Rightarrow> series \<Rightarrow> num" where
  \<comment> \<open>\<open>Series.sum()\<close>\<close>
  "series_sum np (IntS xs) = IntV (sum_list xs)"
| "series_sum np (FloatS fs) = FloatV (nansum np fs)"

definition holding_values :: "numpy \<Rightarrow> holding list \<Rightarrow> series" where
  \<comment> \<open>\<open>df_holdings['quantity'] * df_holdings['cost_basis']\<close>\<close>
  "holding_values np hs =
     series_mul np (column np (map quantity hs)) (column np (map cost_basis hs))"

definition total_value :: "numpy \<Rightarrow> holding list \<Rightarrow> num" where
  \<comment> \<open>\<open>(df_holdings['quantity'] * df_holdings['cost_basis']).sum()\<close>: lines 64 and 111
      of portfolio.py, line 30 of portfolio_metrics.py\<close>
  "total_value np hs = series_sum np (holding_values np hs)"



definition weights :: "numpy \<Rightarrow> holding list \<Rightarrow> fnum list" where
  \<comment> \<open>\<open>(df_holdings['quantity'] * df_holdings['cost_basis']) / total_value\<close>: true
      division, both sides as float64\<close>
  "weights np hs =
     map (\<lambda>v. fdiv np v (to_float np (total_value np hs))) (floats np (holding_values np hs))"

definition hhi_of_weights :: "numpy \<Rightarrow> fnum list \<Rightarrow> fnum" where
  \<comment> \<open>\<open>(weights ** 2).sum()\<close>\<close>
  "hhi_of_weights np ws = nansum np (map (\<lambda>w. fmul np w w) ws)"

definition calculate_hhi :: "numpy \<Rightarrow> holding list \<Rightarrow> fnum" where
  \<comment> \<open>\<open>PortfolioAnalystAgent._calculate_hhi\<close>\<close>
  "calculate_hhi np hs = (if hs = [] then Fin 0 else hhi_of_weights np (weights np hs))"

fun fpositive :: "fnum \<Rightarrow> bool" where
  \<comment> \<open>\<open>hhi > 0\<close>\<close>
  "fpositive (Fin x) = (0 < x)"
| "fpositive PInf = True"
| "fpositive NInf = False"
| "fpositive NaN = False"

definition diversification_ratio :: "numpy \<Rightarrow> fnum \<Rightarrow> fnum" where
  \<comment> \<open>\<open>1 / hhi if hhi > 0 else 0\<close>, in both files\<close>
  "diversification_ratio np hhi = (if fpositive hhi then fdiv np (Fin 1) hhi else Fin 0)"





subsection \<open>The agent's metrics (\<open>PortfolioAnalystAgent._calculate_portfolio_metrics\<close>)\<close>

text \<open>
  \<open>np.random.seed(42)\<close> followed by \<open>np.random.normal(0.0008, 0.02, days)\<close> is a fixed
  sequence of the library; it and \<open>np.percentile\<close> are the parameters \<open>normal_seed42\<close>
  and \<open>percentile\<close>. \<open>np.mean\<close> and \<open>np.std\<close> (the population deviation) are written
  out over the reals.
\<close>

definition generate_mock_returns :: "numpy \<Rightarrow> nat \<Rightarrow> nat \<Rightarrow> real list" where
  \<comment> \<open>\<open>_generate_mock_returns(num_holdings, days)\<close>: \<open>num_holdings\<close> is not read\<close>
  "generate_mock_returns np num_holdings days = normal_seed42 np days"

definition np_mean :: "real list \<Rightarrow> real" where
  "np_mean xs = sum_list xs / real (length xs)"

definition np_std :: "real list \<Rightarrow> real" where
  "np_std xs = sqrt (np_mean (map (\<lambda>x. (x - np_mean xs) * (x - np_mean xs)) xs))"

fun cumprod_from :: "real \<Rightarrow> real list \<Rightarrow> real list" where
  "cumprod_from acc [] = []"
| "cumprod_from acc (x # xs) = (acc * x) # cumprod_from (acc * x) xs"

definition cumprod :: "real list \<Rightarrow> real list" where
  \<comment> \<open>\<open>ndarray.cumprod()\<close>\<close>
  "cumprod xs = cumprod_from 1 xs"

definition ndarray_expanding_max :: "real list \<Rightarrow> py_error + real list" where
  \<comment> \<open>\<open>cumulative_returns.expanding().max()\<close> on the result of \<open>ndarray.cumprod()\<close>:
      \<open>expanding\<close> is a method of pandas objects, a numpy array has no such attribute\<close>
  "ndarray_expanding_max xs = Inl AttributeError"

record portfolio_metrics =
  pm_total_value :: num
  pm_num_holdings :: nat
  pm_volatility :: real
  pm_sharpe_ratio :: real
  pm_max_drawdown :: real
  pm_var_95 :: real
  pm_diversification_ratio :: fnum
  pm_returns :: "real list"
  pm_cumulative_returns :: "real list"

definition risk_free_rate :: real where
  "risk_free_rate = 0.02"

definition list_min :: "real list \<Rightarrow> real" where
  \<comment> \<open>\<open>drawdown.min()\<close> of a non-empty array\<close>
  "list_min xs = fold min (tl xs) (hd xs)"

definition calculate_portfolio_metrics ::
  "numpy \<Rightarrow> holding list \<Rightarrow> py_error + portfolio_metrics option" where
  \<comment> \<open>the statements in the source's order; \<open>None\<close> is the empty dictionary\<close>
  "calculate_portfolio_metrics np hs =
     (if hs = [] then Inr None
      else
        (let total_value' = total_value np hs;
             num_holdings = length hs;
             returns = generate_mock_returns np num_holdings 252;
             volatility = np_std returns * sqrt 252;
             sharpe_ratio = (if 0 < volatility
                             then (np_mean returns * 252 - risk_free_rate) / volatility
                             else 0);
             cumulative_returns = cumprod (map (\<lambda>r. 1 + r) returns)
         in case ndarray_expanding_max cumulative_returns of
              Inl e \<Rightarrow> Inl e
            | Inr peak \<Rightarrow>
                (let drawdown = map (\<lambda>(c, p). (c - p) / p) (zip cumulative_returns peak);
                     max_drawdown = list_min drawdown;
                     var_95 = percentile np returns 5;
                     hhi = calculate_hhi np hs
                 in Inr (Some \<lparr>pm_total_value = total_value',
                                 pm_num_holdings = num_holdings,
                                 pm_volatility = volatility,
                                 pm_sharpe_ratio = sharpe_ratio,
                                 pm_max_drawdown = max_drawdown,
                                 pm_var_95 = var_95,
                                 pm_diversification_ratio = diversification_ratio np hhi,
                                 pm_returns = returns,
                                 pm_cumulative_returns = cumulative_returns\<rparr>))))"

section \<open>Properties of the router\<close>

lemma scores_of_hello:
  "scores_of (py_lower ''hello'') = [(TUTOR, 0), (PORTFOLIO, 0), (MARKET, 0), (ONBOARDING, 0)]"
  by code_simp

lemma split_count_hello: "split_count False (py_lower ''hello'') = 1"
  by code_simp

lemma keyword_score_none:
  "\<forall>k\<in>set kws. \<not> py_in k q \<Longrightarrow> keyword_score q kws = 0"
  by (simp add: keyword_score_def)

lemma scores_of_no_keyword:
  assumes "\<forall>k\<in>set (concat (map snd intent_keywords)). \<not> py_in k ql"
  shows "scores_of ql = [(TUTOR, 0), (PORTFOLIO, 0), (MARKET, 0), (ONBOARDING, 0)]"
proof -
  have "\<forall>(a, kws)\<in>set intent_keywords. keyword_score ql kws = 0"
    using assms by (auto intro!: keyword_score_none)
  then show ?thesis
    by (simp add: scores_of_def intent_keywords_def)
qed

text \<open>
  Whatever the query, if none of the keywords occurs in it and it has a word, the router
  answers with the first entry of its table and the confidence 0.
\<close>

lemma route_query_no_keyword:
  assumes "\<forall>k\<in>set (concat (map snd intent_keywords)). \<not> py_in k (py_lower (query s))"
    and "split_count False (py_lower (query s)) \<noteq> 0"
  shows "route_query s =
     Inr (TUTOR, s\<lparr>confidence := 0, current_agent := Some TUTOR, intent := Some ''tutor''\<rparr>)"
  using assms(2)
  by (simp add: route_query_def scores_of_no_keyword [OF assms(1)])

text \<open>
  C2. The claim: a query without any keyword is routed to the tutor with confidence 0.5.
  The code: the dictionary of scores always has its four entries, so the branch that sets
  0.5 is never taken; for the query \<open>hello\<close> the method returns the tutor with confidence
  \<open>0 / 1 = 0\<close> and intent \<open>tutor\<close>.
\<close>

theorem route_query_hello_confidence_zero:
  "route_query (s\<lparr>query := ''hello''\<rparr>) =
     Inr (TUTOR, s\<lparr>query := ''hello'', confidence := 0, current_agent := Some TUTOR,
                    intent := Some ''tutor''\<rparr>)"
  by (simp add: route_query_def scores_of_hello split_count_hello)

text \<open>
  C6. The claim: \<open>route_query\<close> never raises, also on an empty query. The code: the
  empty query has no words, and the division by the word count raises
  ZeroDivisionError.
\<close>

theorem route_query_empty_raises:
  "route_query (s\<lparr>query := []\<rparr>) = Inl ZeroDivisionError"
  by (simp add: route_query_def py_lower_def scores_of_def intent_keywords_def
        split: prod.splits)

lemma route_query_no_words:
  "split_count False (py_lower (query s)) = 0 \<Longrightarrow> route_query s = Inl ZeroDivisionError"
  by (simp add: route_query_def scores_of_def intent_keywords_def split: prod.splits)

section \<open>Properties of the workflow\<close>

lemma router_node_start:
  "router_node (initial_state u ''start'' c) =
     (initial_state u ''start'' c)
       \<lparr>f_current_agent := Some ''onboarding'', f_intent := Some ''onboarding'',
        f_confidence := 1\<rparr>"
proof -
  have sc: "scores_of (py_lower ''start'') =
      [(TUTOR, 0), (PORTFOLIO, 0), (MARKET, 0), (ONBOARDING, 1)]"
    by code_simp
  have w: "split_count False (py_lower ''start'') = 1"
    by code_simp
  show ?thesis
    by (simp add: router_node_def route_query_def to_agent_state_def initial_state_def sc w)
qed

lemma graph_invoke_start: "graph_invoke A (initial_state u ''start'' c) = ([], Inl KeyError)"
  by (simp add: graph_invoke_def router_node_start route_to_agent_def conditional_edges_def)

text \<open>
  Which responders run: the one the router named, when it is one of the three for which
  the conditional edge has a target, and none otherwise.
\<close>

lemma responder_log:
  "fst (graph_invoke A st) =
     (case f_current_agent (router_node st) of
        None \<Rightarrow> []
      | Some k \<Rightarrow> if k = ''tutor'' \<or> k = ''portfolio'' \<or> k = ''market'' then [k] else [])"
  by (auto simp add: graph_invoke_def route_to_agent_def conditional_edges_def Let_def
        tutor_node_def portfolio_node_def market_node_def split: option.splits)

text \<open>
  C1. The claim: for every query exactly one of the three responders runs. The code: the
  query \<open>start\<close> matches only a keyword of the onboarding entry of the router's table;
  the conditional edge has no target for \<open>onboarding\<close>, the graph raises, no responder
  is called, and \<open>process_query\<close> returns its error payload.
\<close>

theorem onboarding_query_runs_no_responder:
  "graph_invoke A (initial_state u ''start'' c) = ([], Inl KeyError)
   \<and> process_query A u ''start'' c = Inr error_payload"
  by (simp add: process_query_def graph_invoke_start)

text \<open>
  C4. \<open>process_query\<close> never raises: for every user, query, context and every behaviour
  of the three agents it returns a dictionary with the eight keys of the payload; when
  the graph raises, the payload carries the apology, \<open>approved = False\<close>, no sources
  and an empty compliance dictionary.
\<close>

theorem process_query_always_payload:
  "\<exists>p. process_query A u q c = Inr p
     \<and> map fst p = [''response'', ''sources'', ''agent'', ''intent'', ''confidence'',
                     ''approved'', ''compliance'', ''analysis'']
     \<and> (snd (graph_invoke A (initial_state u q c)) = Inl e \<longrightarrow>
          map_of p ''response'' = Some (Val (PyStr ''I'm sorry, I encountered an error processing your request. Please try again.''))
        \<and> map_of p ''approved'' = Some (Val (PyBool False))
        \<and> map_of p ''sources'' = Some (Val (PyList []))
        \<and> map_of p ''compliance'' = Some (Meta []))"
  by (cases "snd (graph_invoke A (initial_state u q c))")
     (simp_all add: process_query_def error_payload_def result_payload_def)

theorem process_query_always_payload_witness:
  "\<exists>p. process_query
         \<lparr>tutor_process = (\<lambda>st. Inl OtherError),
          portfolio_process = (\<lambda>st. Inl OtherError),
          market_process = (\<lambda>st. Inl OtherError)\<rparr>
         ''user-1'' ''start'' PyNone = Inr p
     \<and> map fst p = [''response'', ''sources'', ''agent'', ''intent'', ''confidence'',
                     ''approved'', ''compliance'', ''analysis'']
     \<and> snd (graph_invoke
         \<lparr>tutor_process = (\<lambda>st. Inl OtherError),
          portfolio_process = (\<lambda>st. Inl OtherError),
          market_process = (\<lambda>st. Inl OtherError)\<rparr>
         (initial_state ''user-1'' ''start'' PyNone)) = Inl KeyError
     \<and> map_of p ''response'' = Some (Val (PyStr ''I'm sorry, I encountered an error processing your request. Please try again.''))
     \<and> map_of p ''approved'' = Some (Val (PyBool False))
     \<and> map_of p ''sources'' = Some (Val (PyList []))
     \<and> map_of p ''compliance'' = Some (Meta [])"
  using process_query_always_payload
     [of "\<lparr>tutor_process = (\<lambda>st. Inl OtherError),
           portfolio_process = (\<lambda>st. Inl OtherError),
           market_process = (\<lambda>st. Inl OtherError)\<rparr>"
         "''user-1''" "''start''" PyNone KeyError]
  by (auto simp add: graph_invoke_start)

section \<open>Properties of the compliance review\<close>

text \<open>Only the loops over the prohibited phrases and the return promises touch \<open>approved\<close>.\<close>

lemma approved_fold_prohibited:
  "approved (fold (check_prohibited rl) ps ch) =
     (approved ch \<and> \<not> list_ex (\<lambda>p. py_in p rl) ps)"
  by (induction ps arbitrary: ch) (auto simp: check_prohibited_def add_flag_def)

lemma approved_fold_advice: "approved (fold (check_advice rl) ps ch) = approved ch"
  by (induction ps arbitrary: ch) (auto simp: check_advice_def add_flag_def)

lemma approved_fold_recommendation:
  "approved (fold (check_recommendation rl) ps ch) = approved ch"
  by (induction ps arbitrary: ch) (auto simp: check_recommendation_def add_flag_def)

lemma approved_fold_return_promise:
  "approved (fold (check_return_promise rl) ps ch) =
     (approved ch \<and> \<not> list_ex (\<lambda>p. re_search p rl) ps)"
  by (induction ps arbitrary: ch) (auto simp: check_return_promise_def add_flag_def)

lemma approved_fold_time_sensitive:
  "approved (fold (check_time_sensitive rl) ps ch) = approved ch"
  by (induction ps arbitrary: ch) (auto simp: check_time_sensitive_def add_flag_def)

lemma approved_run_compliance_checks:
  "approved (run_compliance_checks r t) =
     (\<not> list_ex (\<lambda>p. py_in p (py_lower r)) prohibited_content
      \<and> \<not> list_ex (\<lambda>p. re_search p (py_lower r)) return_promises)"
  by (simp add: run_compliance_checks_def Let_def approved_fold_prohibited
        approved_fold_advice approved_fold_recommendation approved_fold_return_promise
        approved_fold_time_sensitive)

lemma generate_disclaimers_general_first:
  "generate_disclaimers t ch \<noteq> []
   \<and> hd (generate_disclaimers t ch) =
       ''This information is for educational purposes only and should not be considered as investment advice.''"
  by (simp add: generate_disclaimers_def Let_def disclaimers_table_def split: option.splits)

text \<open>
  C3. The claim: a response that contains a prohibited phrase is not approved, and the
  phrase does not occur in the sanitized text. The code: the rewriting of advice phrases
  runs after the redaction and can put the phrase together again. The response
  \<open>risk-free you shouldisk-free\<close> contains \<open>risk-free\<close> and is not approved; the
  redaction replaces the first nine characters, then \<open>you should\<close> becomes
  \<open>one might consider\<close>, whose last letter completes \<open>risk-free\<close> in front of
  \<open>isk-free\<close>.
\<close>

theorem sanitized_text_keeps_prohibited_phrase:
  "py_in ''risk-free'' (py_lower ''risk-free you shouldisk-free'')
   \<and> approved (run_compliance_checks ''risk-free you shouldisk-free'' t) = False
   \<and> sanitize_response ''risk-free you shouldisk-free''
        (run_compliance_checks ''risk-free you shouldisk-free'' t) =
      ''[content removed for compliance] one might considerisk-free''
   \<and> py_in ''risk-free''
        (sanitize_response ''risk-free you shouldisk-free''
           (run_compliance_checks ''risk-free you shouldisk-free'' t))"
  by code_simp

text \<open>
  C5, as claimed: a second review, of the sanitized text, does not turn \<open>approved\<close> from
  false to true. It does for the response \<open>risk-free\<close>: the first review rejects it, the
  sanitized text is the redaction marker alone, and the second review approves that.
\<close>

theorem second_review_approves_redacted_text:
  "approved (run_compliance_checks ''risk-free'' ''tutor'') = False
   \<and> approved (run_compliance_checks
        (sanitize_response ''risk-free'' (run_compliance_checks ''risk-free'' ''tutor''))
        ''tutor'') = True"
  by code_simp

text \<open>
  C5, amended: for every response text and agent type the review produces at least one
  disclaimer, the general one first, on the response and again on the sanitized text.
  The second review is a review of the sanitized text alone: it approves exactly when
  that text holds no prohibited phrase and no return promise, whatever the first review
  found.
\<close>

theorem review_always_has_general_disclaimer:
  "generate_disclaimers t (run_compliance_checks r t) \<noteq> []
   \<and> hd (generate_disclaimers t (run_compliance_checks r t)) =
       ''This information is for educational purposes only and should not be considered as investment advice.''
   \<and> generate_disclaimers t
        (run_compliance_checks (sanitize_response r (run_compliance_checks r t)) t) \<noteq> []
   \<and> hd (generate_disclaimers t
        (run_compliance_checks (sanitize_response r (run_compliance_checks r t)) t)) =
       ''This information is for educational purposes only and should not be considered as investment advice.''
   \<and> approved (run_compliance_checks (sanitize_response r (run_compliance_checks r t)) t) =
       (\<not> list_ex (\<lambda>p. py_in p (py_lower (sanitize_response r (run_compliance_checks r t))))
              prohibited_content
        \<and> \<not> list_ex (\<lambda>p. re_search p (py_lower (sanitize_response r (run_compliance_checks r t))))
              return_promises)"
  by (simp only: generate_disclaimers_general_first approved_run_compliance_checks simp_thms)

section \<open>Properties of the portfolio metrics\<close>











lemma total_value_wraps:
  "total_value np [\<lparr>symbol = ''AAPL'', quantity = IntV (2 ^ 32), cost_basis = IntV (2 ^ 32),
                     market_value = None\<rparr>] = IntV 0"
  by (simp add: total_value_def holding_values_def column_def)




lemma fdiv_self:
  assumes "round64 np 1 = Fin 1"
  shows "fdiv np v v = (case v of Fin p \<Rightarrow> if p = 0 then NaN else Fin 1 | _ \<Rightarrow> NaN)"
  using assms by (cases v) simp_all













lemma calculate_portfolio_metrics_raises:
  "hs \<noteq> [] \<Longrightarrow> calculate_portfolio_metrics np hs = Inl AttributeError"
  by (simp add: calculate_portfolio_metrics_def ndarray_expanding_max_def Let_def)







text \<open>
  C10. The claim: volatility, Sharpe ratio, maximal drawdown and VaR are the same
  numbers for every non-empty portfolio, computed from the mock series. The code:
  \<open>_calculate_portfolio_metrics\<close> draws the series and computes volatility and Sharpe
  ratio from it, then calls \<open>expanding()\<close> on a numpy array and raises AttributeError;
  no metrics are returned, for the single holding of 100 AAPL as for every other
  non-empty list.
\<close>

theorem portfolio_metrics_raise_attribute_error:
  "calculate_portfolio_metrics np
     [\<lparr>symbol = ''AAPL'', quantity = IntV 100, cost_basis = IntV 150,
       market_value = None\<rparr>] = Inl AttributeError"
  by (simp add: calculate_portfolio_metrics_def ndarray_expanding_max_def Let_def)

section \<open>Properties of the response validation\<close>

lemma run_compliance_checks_empty:
  "run_compliance_checks [] t = \<lparr>approved = True, flags = [], issues = []\<rparr>"
  by code_simp

lemma sanitize_response_empty: "sanitize_response [] ch = []"
  by code_simp

lemma map_of_dict_set: "map_of (dict_set k v d) = (map_of d)(k \<mapsto> v)"
  by (simp add: dict_set_def update_conv')

lemma validated_response_entry:
  "map_of (dict_set ''approved'' a (dict_set ''compliance'' b (dict_set ''response'' c d)))
     ''response'' = Some c"
  by (simp add: map_of_dict_set)

lemma validated_approved_entry:
  "map_of (dict_set ''approved'' a (dict_set ''compliance'' b (dict_set ''response'' c d)))
     ''approved'' = Some a"
  by (simp add: map_of_dict_set)

lemma validated_compliance_entry:
  "map_of (dict_set ''approved'' a (dict_set ''compliance'' b (dict_set ''response'' c d)))
     ''compliance'' = Some b"
  by (simp add: map_of_dict_set)

lemma generate_disclaimers_no_flags:
  "generate_disclaimers agent_type \<lparr>approved = True, flags = [], issues = []\<rparr> =
     ''This information is for educational purposes only and should not be considered as investment advice.''
       # (case map_of disclaimers_table agent_type of None \<Rightarrow> [] | Some d \<Rightarrow> [d])"
  by (simp add: generate_disclaimers_def Let_def disclaimers_table_def split: option.splits)

lemma compliance_metadata_no_flags:
  "compliance_metadata agent_type \<lparr>approved = True, flags = [], issues = []\<rparr>
     (generate_disclaimers agent_type \<lparr>approved = True, flags = [], issues = []\<rparr>) =
   [(''disclaimers'', CStrs (''This information is for educational purposes only and should not be considered as investment advice.''
        # (case map_of disclaimers_table agent_type of None \<Rightarrow> [] | Some d \<Rightarrow> [d]))),
    (''risk_warnings'', CStrs (get_risk_warnings agent_type)),
    (''compliance_flags'', CStrs []),
    (''approved'', CBool True),
    (''jurisdiction'', CStr ''US''),
    (''last_updated'', CStr ''2024-01-01'')]"
  by (simp only: compliance_metadata_def generate_disclaimers_no_flags checks.simps)

lemma validate_empty_text:
  assumes "dict_get agent_response ''response'' (PyStr []) = PyStr []"
  shows "validate_agent_response agent_response agent_type =
     Inr (dict_set ''approved'' (Val (PyBool True))
         (dict_set ''compliance''
            (Meta (compliance_metadata agent_type \<lparr>approved = True, flags = [], issues = []\<rparr>
               (generate_disclaimers agent_type \<lparr>approved = True, flags = [], issues = []\<rparr>)))
         (dict_set ''response'' (Val (PyStr []))
            (map (\<lambda>(k, v). (k, Val v)) agent_response))))"
  unfolding validate_agent_response_def assms
  by (simp only: pyval.case Let_def run_compliance_checks_empty sanitize_response_empty
        checks.simps)

lemma portfolio_disclaimer:
  "(case map_of disclaimers_table ''portfolio'' of None \<Rightarrow> [] | Some d \<Rightarrow> [d]) =
     [''Portfolio analysis is for educational purposes only. Past performance does not guarantee future results.'']"
  by (simp add: disclaimers_table_def)

text \<open>
  C9. When the dictionary given to \<open>validate_agent_response\<close> has no \<open>response\<close> entry,
  the validation does not raise: it reviews the empty string, stores the empty string as
  the response, approves, raises no flag, and attaches only the general disclaimer and,
  where the table of disclaimers has one for the agent type, that one.
\<close>

theorem validate_missing_response:
  assumes "map_of agent_response ''response'' = None"
  shows "\<exists>res. validate_agent_response agent_response agent_type = Inr res
     \<and> map_of res ''response'' = Some (Val (PyStr []))
     \<and> map_of res ''approved'' = Some (Val (PyBool True))
     \<and> map_of res ''compliance'' = Some (Meta
          [(''disclaimers'', CStrs (''This information is for educational purposes only and should not be considered as investment advice.''
               # (case map_of disclaimers_table agent_type of None \<Rightarrow> [] | Some d \<Rightarrow> [d]))),
           (''risk_warnings'', CStrs (get_risk_warnings agent_type)),
           (''compliance_flags'', CStrs []),
           (''approved'', CBool True),
           (''jurisdiction'', CStr ''US''),
           (''last_updated'', CStr ''2024-01-01'')])"
proof -
  have g: "dict_get agent_response ''response'' (PyStr []) = PyStr []"
    unfolding dict_get_def assms by (simp only: option.case)
  show ?thesis
    unfolding validate_empty_text [OF g]
    by (intro exI conjI, rule refl)
       (simp_all only: validated_response_entry validated_approved_entry
          validated_compliance_entry compliance_metadata_no_flags)
qed

theorem validate_missing_response_witness:
  "map_of [(''agent'', PyStr ''portfolio'')] ''response'' = None
   \<and> (\<exists>res. validate_agent_response [(''agent'', PyStr ''portfolio'')] ''portfolio'' = Inr res
     \<and> map_of res ''response'' = Some (Val (PyStr []))
     \<and> map_of res ''approved'' = Some (Val (PyBool True))
     \<and> map_of res ''compliance'' = Some (Meta
          [(''disclaimers'', CStrs [''This information is for educational purposes only and should not be considered as investment advice.'',
              ''Portfolio analysis is for educational purposes only. Past performance does not guarantee future results.'']),
           (''risk_warnings'', CStrs (get_risk_warnings ''portfolio'')),
           (''compliance_flags'', CStrs []),
           (''approved'', CBool True),
           (''jurisdiction'', CStr ''US''),
           (''last_updated'', CStr ''2024-01-01'')]))"
proof -
  have h: "map_of [(''agent'', PyStr ''portfolio'')] ''response'' = None"
    by simp
  from validate_missing_response [OF h, of "''portfolio''"] h show ?thesis
    unfolding portfolio_disclaimer by (intro conjI)
qed

end
